theory Spec2Isabelle
  imports Complex_Main
begin

section \<open>Python values used by mapping_parser.py\<close>

text \<open>
  The exceptions the script can raise.  Every function that can raise returns
  \<open>py_error + 'a\<close>, with \<open>Inl\<close> carrying the exception.
\<close>

datatype py_error = KeyError | IndexError | ZeroDivisionError | NameError | TypeError

text \<open>
  A Python \<open>dict\<close> keeps its keys in insertion order, and the script iterates over
  dictionaries, so a dictionary is an association list with distinct keys: assignment to
  an existing key keeps its place, a new key goes to the end.
\<close>

type_synonym ('k, 'v) dict = "('k \<times> 'v) list"

definition dict_has :: "('k, 'v) dict \<Rightarrow> 'k \<Rightarrow> bool" where
  "dict_has d k = (case map_of d k of None \<Rightarrow> False | Some v \<Rightarrow> True)"

definition dict_get :: "('k, 'v) dict \<Rightarrow> 'k \<Rightarrow> py_error + 'v" where
  "dict_get d k = (case map_of d k of None \<Rightarrow> Inl KeyError | Some v \<Rightarrow> Inr v)"

fun dict_set :: "('k, 'v) dict \<Rightarrow> 'k \<Rightarrow> 'v \<Rightarrow> ('k, 'v) dict" where
  "dict_set [] k v = [(k, v)]"
| "dict_set ((k', v') # d) k v =
     (if k' = k then (k, v) # d else (k', v') # dict_set d k v)"

definition dict_pop :: "('k, 'v) dict \<Rightarrow> 'k \<Rightarrow> ('k, 'v) dict" where
  "dict_pop d k = filter (\<lambda>kv. fst kv \<noteq> k) d"

definition dict_keys :: "('k, 'v) dict \<Rightarrow> 'k list" where
  "dict_keys d = map fst d"

text \<open>\<open>d[k].append(v)\<close> on a \<open>defaultdict(list)\<close>: a missing key starts from \<open>[]\<close>.\<close>

definition defaultdict_append :: "('k, 'v list) dict \<Rightarrow> 'k \<Rightarrow> 'v \<Rightarrow> ('k, 'v list) dict" where
  "defaultdict_append d k v =
     (case map_of d k of None \<Rightarrow> dict_set d k [v] | Some vs \<Rightarrow> dict_set d k (vs @ [v]))"

text \<open>\<open>xs[i]\<close> for a non-negative index.\<close>

definition py_index :: "'a list \<Rightarrow> nat \<Rightarrow> py_error + 'a" where
  "py_index xs i = (if i < length xs then Inr (xs ! i) else Inl IndexError)"

text \<open>\<open>sep.join(xs)\<close> and \<open>s.split(sep)\<close> for a one-character separator.\<close>

fun join :: "char \<Rightarrow> string list \<Rightarrow> string" where
  "join sep [] = []"
| "join sep [x] = x"
| "join sep (x # y # ys) = x @ sep # join sep (y # ys)"

fun split :: "char \<Rightarrow> string \<Rightarrow> string list" where
  "split sep [] = [[]]"
| "split sep (c # cs) =
     (if c = sep then [] # split sep cs
      else (case split sep cs of [] \<Rightarrow> [[c]] | w # ws \<Rightarrow> (c # w) # ws))"

text \<open>\<open>s.rstrip(c)\<close> for a one-character \<open>c\<close>: every trailing \<open>c\<close> goes.\<close>

definition rstrip :: "char \<Rightarrow> string \<Rightarrow> string" where
  "rstrip c s = rev (dropWhile (\<lambda>x. x = c) (rev s))"

text \<open>\<open>str(n)\<close> for a Python integer.\<close>

definition digit_char :: "nat \<Rightarrow> char" where
  "digit_char d = char_of (48 + d)"

fun str_nat_aux :: "nat \<Rightarrow> nat \<Rightarrow> string \<Rightarrow> string" where
  "str_nat_aux 0 n acc = acc"
| "str_nat_aux (Suc f) n acc =
     (if n < 10 then digit_char n # acc
      else str_nat_aux f (n div 10) (digit_char (n mod 10) # acc))"

definition str_nat :: "nat \<Rightarrow> string" where
  "str_nat n = str_nat_aux (Suc n) n []"

definition str_int :: "int \<Rightarrow> string" where
  "str_int i = (if i < 0 then CHR ''-'' # str_nat (nat (- i)) else str_nat (nat i))"

section \<open>Graph model: classes Node, Path and Pangenome\<close>

record node =
  node_ID :: string
  node_sequence :: string
  node_pathsCrossed :: "(string, (nat \<times> string) list) dict"
  node_previous :: "string list"
  node_next :: "string list"

definition Node :: "string \<Rightarrow> string \<Rightarrow> node" where
  "Node i s = \<lparr>node_ID = i, node_sequence = s, node_pathsCrossed = [],
               node_previous = [], node_next = []\<rparr>"

record path =
  path_ID :: string
  path_nodes :: "string list"
  path_sequence :: string

definition Path :: "string \<Rightarrow> path" where
  "Path i = \<lparr>path_ID = i, path_nodes = [], path_sequence = []\<rparr>"

record pangenome =
  graph_nodes :: "(string, node) dict"
  graph_paths :: "(string, path) dict"

definition Pangenome :: pangenome where
  "Pangenome = \<lparr>graph_nodes = [], graph_paths = []\<rparr>"

definition add_path :: "pangenome \<Rightarrow> path \<Rightarrow> pangenome" where
  "add_path g p = g\<lparr>graph_paths := dict_set (graph_paths g) (path_ID p) p\<rparr>"

definition get_path :: "pangenome \<Rightarrow> string \<Rightarrow> py_error + path" where
  "get_path g path_id = dict_get (graph_paths g) path_id"

definition paths :: "pangenome \<Rightarrow> string list" where
  "paths g = dict_keys (graph_paths g)"

definition add_node :: "pangenome \<Rightarrow> node \<Rightarrow> pangenome" where
  "add_node g n = g\<lparr>graph_nodes := dict_set (graph_nodes g) (node_ID n) n\<rparr>"

definition get_node :: "pangenome \<Rightarrow> string \<Rightarrow> py_error + node" where
  "get_node g node_id = dict_get (graph_nodes g) node_id"

text \<open>
  The \<open>value\<close> argument of \<open>edit_node\<close> is a pair \<open>(path_id, (idx, ori))\<close> for
  \<open>"add_path"\<close> and a node id for the other two edit types; the callers pass nothing else,
  and a value of the other shape is reported as \<open>TypeError\<close>.  Any other \<open>edit_type\<close>
  string falls into the final \<open>else: pass\<close>.
\<close>

datatype edit_value = PathOcc string "nat \<times> string" | NodeRef string

definition edit_node :: "pangenome \<Rightarrow> string \<Rightarrow> string \<Rightarrow> edit_value \<Rightarrow> py_error + pangenome" where
  "edit_node g edit_type key val =
     (if edit_type = ''add_path'' then
        (case val of
           NodeRef v \<Rightarrow> Inl TypeError
         | PathOcc path_id t \<Rightarrow>
             (case dict_get (graph_nodes g) key of
                Inl e \<Rightarrow> Inl e
              | Inr n \<Rightarrow> Inr (g\<lparr>graph_nodes := dict_set (graph_nodes g) key
                  (n\<lparr>node_pathsCrossed := defaultdict_append (node_pathsCrossed n) path_id t\<rparr>)\<rparr>)))
      else if edit_type = ''add_next'' then
        (case val of
           PathOcc path_id t \<Rightarrow> Inl TypeError
         | NodeRef v \<Rightarrow>
             (case dict_get (graph_nodes g) key of
                Inl e \<Rightarrow> Inl e
              | Inr n \<Rightarrow> Inr (g\<lparr>graph_nodes := dict_set (graph_nodes g) key
                  (n\<lparr>node_next := node_next n @ [v]\<rparr>)\<rparr>)))
      else if edit_type = ''add_previous'' then
        (case val of
           PathOcc path_id t \<Rightarrow> Inl TypeError
         | NodeRef v \<Rightarrow>
             (case dict_get (graph_nodes g) key of
                Inl e \<Rightarrow> Inl e
              | Inr n \<Rightarrow> Inr (g\<lparr>graph_nodes := dict_set (graph_nodes g) key
                  (n\<lparr>node_previous := node_previous n @ [v]\<rparr>)\<rparr>)))
      else Inr g)"

section \<open>Graph builder: reverse_complement and parse_graph\<close>

definition complement :: "(char, char) dict" where
  "complement = [(CHR ''A'', CHR ''T''), (CHR ''C'', CHR ''G''), (CHR ''G'', CHR ''C''),
                 (CHR ''T'', CHR ''A''), (CHR ''N'', CHR ''N'')]"

fun complement_all :: "string \<Rightarrow> py_error + string" where
  "complement_all [] = Inr []"
| "complement_all (b # bs) =
     (case dict_get complement b of
        Inl e \<Rightarrow> Inl e
      | Inr c \<Rightarrow> (case complement_all bs of Inl e \<Rightarrow> Inl e | Inr cs \<Rightarrow> Inr (c # cs)))"

definition reverse_complement :: "string \<Rightarrow> py_error + string" where
  "reverse_complement dna = complement_all (rev dna)"

text \<open>
  The loop of a \<open>P\<close> line over \<open>enumerate(node_list)\<close>; the state is the graph, the path
  under construction and the sequence \<open>seq\<close>.
\<close>

fun parse_path_steps ::
  "string \<Rightarrow> nat \<Rightarrow> string list \<Rightarrow> pangenome \<Rightarrow> path \<Rightarrow> string
     \<Rightarrow> py_error + (pangenome \<times> path \<times> string)" where
  "parse_path_steps path_id idx [] g p seq = Inr (g, p, seq)"
| "parse_path_steps path_id idx (node_info # rest) g p seq =
     (case node_info of
        [] \<Rightarrow> Inl IndexError
      | c # cs \<Rightarrow>
          (let ori = last node_info; node_id = rstrip ori node_info in
           case get_node g node_id of
             Inl e \<Rightarrow> Inl e
           | Inr n \<Rightarrow>
               (case edit_node g ''add_path'' node_id (PathOcc path_id (idx, [ori])) of
                  Inl e \<Rightarrow> Inl e
                | Inr g' \<Rightarrow>
                    (let p' = p\<lparr>path_nodes := path_nodes p @ [node_ID n]\<rparr> in
                     if ori = CHR ''+'' then
                       parse_path_steps path_id (Suc idx) rest g' p' (seq @ node_sequence n)
                     else
                       (case reverse_complement (node_sequence n) of
                          Inl e \<Rightarrow> Inl e
                        | Inr rc \<Rightarrow> parse_path_steps path_id (Suc idx) rest g' p' (seq @ rc))))))"

text \<open>
  One line of the GFA file, already split at the tabs (\<open>line.strip().split('\t')\<close> is the
  tokenizer).  An \<open>L\<close> line calls \<open>edit_node\<close> with the strings of the source:
  \<open>"add_next"\<close> for the first call and \<open>"add_prev"\<close> for the second, both with
  \<open>node1.ID\<close> as key and \<open>node2.ID\<close> as value.
\<close>

definition parse_line :: "pangenome \<Rightarrow> string list \<Rightarrow> py_error + pangenome" where
  "parse_line g line =
     (case py_index line 0 of
        Inl e \<Rightarrow> Inl e
      | Inr tag \<Rightarrow>
          if tag = ''S'' then
            (case py_index line 1 of
               Inl e \<Rightarrow> Inl e
             | Inr i \<Rightarrow>
                 (case py_index line 2 of
                    Inl e \<Rightarrow> Inl e
                  | Inr s \<Rightarrow> Inr (add_node g (Node i s))))
          else if tag = ''P'' then
            (case py_index line 1 of
               Inl e \<Rightarrow> Inl e
             | Inr path_id \<Rightarrow>
                 (case py_index line 2 of
                    Inl e \<Rightarrow> Inl e
                  | Inr l2 \<Rightarrow>
                      (case parse_path_steps path_id 0 (split CHR '','' l2) g (Path path_id) [] of
                         Inl e \<Rightarrow> Inl e
                       | Inr (g', p, seq) \<Rightarrow> Inr (add_path g' (p\<lparr>path_sequence := seq\<rparr>)))))
          else if tag = ''L'' then
            (case py_index line 1 of
               Inl e \<Rightarrow> Inl e
             | Inr l1 \<Rightarrow>
                 (case get_node g l1 of
                    Inl e \<Rightarrow> Inl e
                  | Inr node1 \<Rightarrow>
                      (case py_index line 3 of
                         Inl e \<Rightarrow> Inl e
                       | Inr l3 \<Rightarrow>
                           (case get_node g l3 of
                              Inl e \<Rightarrow> Inl e
                            | Inr node2 \<Rightarrow>
                                (case (if node_ID node2 \<in> set (node_next node1) then Inr g
                                       else edit_node g ''add_next'' (node_ID node1)
                                              (NodeRef (node_ID node2))) of
                                   Inl e \<Rightarrow> Inl e
                                 | Inr g' \<Rightarrow>
                                     (if node_ID node1 \<in> set (node_previous node2) then Inr g'
                                      else edit_node g' ''add_prev'' (node_ID node1)
                                             (NodeRef (node_ID node2))))))))
          else Inr g)"

fun parse_lines :: "pangenome \<Rightarrow> string list list \<Rightarrow> py_error + pangenome" where
  "parse_lines g [] = Inr g"
| "parse_lines g (line # rest) =
     (case parse_line g line of Inl e \<Rightarrow> Inl e | Inr g' \<Rightarrow> parse_lines g' rest)"

definition parse_graph :: "string list list \<Rightarrow> py_error + pangenome" where
  "parse_graph graph_file = parse_lines Pangenome graph_file"

section \<open>Gene identity index: generate_clusters_dict\<close>

text \<open>
  The loop over \<open>pangenome.paths()\<close> that fills \<open>d_genes\<close>.  The variable \<open>nodelist\<close>
  is assigned the forward-joined signature first and is re-assigned the reverse-joined
  one in the \<open>else\<close> branch; the final \<open>d_genes[nodelist] = [cpath]\<close> uses whatever it
  holds then.
\<close>

fun d_genes_loop ::
  "pangenome \<Rightarrow> string list \<Rightarrow> (string, string list) dict
     \<Rightarrow> py_error + (string, string list) dict" where
  "d_genes_loop g [] d_genes = Inr d_genes"
| "d_genes_loop g (cpath # rest) d_genes =
     (case get_path g cpath of
        Inl e \<Rightarrow> Inl e
      | Inr p \<Rightarrow>
          (let nodelist = join CHR ''-'' (path_nodes p) in
           case map_of d_genes nodelist of
             Some members \<Rightarrow> d_genes_loop g rest (dict_set d_genes nodelist (members @ [cpath]))
           | None \<Rightarrow>
               (let nodelist = join CHR ''-'' (rev (path_nodes p)) in
                case map_of d_genes nodelist of
                  Some members \<Rightarrow>
                    d_genes_loop g rest (dict_set d_genes nodelist (members @ [cpath]))
                | None \<Rightarrow> d_genes_loop g rest (dict_set d_genes nodelist [cpath]))))"

text \<open>
  An entry of \<open>d_idt\<close> is a dictionary with the optional keys \<open>'genes'\<close> and \<open>'cluster'\<close>.
  Of a cluster of the pickled \<open>d_clusters\<close> only its \<open>'genes_list'\<close> is read.
\<close>

record idt =
  idt_genes :: "string option"
  idt_cluster :: "string option"

definition idt_entry :: "(string, idt) dict \<Rightarrow> string \<Rightarrow> idt" where
  "idt_entry d j =
     (case map_of d j of None \<Rightarrow> \<lparr>idt_genes = None, idt_cluster = None\<rparr> | Some r \<Rightarrow> r)"

definition set_genes :: "string \<Rightarrow> (string, idt) dict \<Rightarrow> string \<Rightarrow> (string, idt) dict" where
  "set_genes i d j = dict_set d j ((idt_entry d j)\<lparr>idt_genes := Some i\<rparr>)"

definition set_cluster :: "string \<Rightarrow> (string, idt) dict \<Rightarrow> string \<Rightarrow> (string, idt) dict" where
  "set_cluster i d j = dict_set d j ((idt_entry d j)\<lparr>idt_cluster := Some i\<rparr>)"

definition d_idt_of ::
  "(string, string list) dict \<Rightarrow> (string, string list) dict \<Rightarrow> (string, idt) dict" where
  "d_idt_of d_clusters d_genes =
     foldl (\<lambda>d (i, js). foldl (set_cluster i) d js)
       (foldl (\<lambda>d (i, js). foldl (set_genes i) d js) [] d_genes) d_clusters"

definition generate_clusters_dict ::
  "pangenome \<Rightarrow> (string, string list) dict
     \<Rightarrow> py_error + ((string, string list) dict \<times> (string, string list) dict \<times> (string, idt) dict)"
  where
  "generate_clusters_dict g d_clusters =
     (case d_genes_loop g (paths g) [] of
        Inl e \<Rightarrow> Inl e
      | Inr d_genes \<Rightarrow> Inr (d_clusters, d_genes, d_idt_of d_clusters d_genes))"

section \<open>Alignment records: one JSON line of the mapping file\<close>

text \<open>
  The keys read with \<open>.get\<close> or tested with \<open>in\<close> are optional fields; the keys read
  with \<open>[...]\<close> are plain fields.  \<open>'is_reverse' in node['position']\<close> tests the presence
  of the key, whatever its value.  The \<open>start\<close> list of a record is never read.
\<close>

record edit =
  edit_from_length :: "int option"
  edit_to_length :: "int option"
  edit_sequence :: "string option"

record position =
  pos_node_id :: string
  pos_offset :: "int option"
  pos_is_reverse :: "bool option"

record mapping_step =
  step_position :: position
  step_edit :: "edit list"

record subpath_entry =
  sub_mapping :: "mapping_step list"
  sub_score :: "int option"
  sub_next :: "nat list option"

record aln_record =
  aln_name :: string
  aln_sequence :: string
  aln_subpath :: "subpath_entry list option"
  aln_start :: "nat list option"

definition from_len_of :: "edit \<Rightarrow> int" where
  "from_len_of e = (case edit_from_length e of None \<Rightarrow> 0 | Some n \<Rightarrow> n)"

definition to_len_of :: "edit \<Rightarrow> int" where
  "to_len_of e = (case edit_to_length e of None \<Rightarrow> 0 | Some n \<Rightarrow> n)"

section \<open>Variant extractor: get_variants\<close>

text \<open>
  A variant is \<open>(node_id, pos, n)\<close>; \<open>pos\<close> is an integer for substitutions and
  deletions and a string for insertions; \<open>n\<close> is a one-character string.
\<close>

datatype vpos = IntPos int | StrPos string

type_synonym variant = "string \<times> vpos \<times> string"

definition step_pos :: "bool \<Rightarrow> int \<Rightarrow> int" where
  "step_pos is_reverse pos = (if is_reverse then pos - 1 else pos + 1)"

text \<open>The substitution loop \<open>for n in edit['sequence']\<close> (lines 359-364).\<close>

fun subst_loop :: "string \<Rightarrow> bool \<Rightarrow> int \<Rightarrow> string \<Rightarrow> variant list \<times> int" where
  "subst_loop node_id is_reverse pos [] = ([], pos)"
| "subst_loop node_id is_reverse pos (n # ns) =
     (case subst_loop node_id is_reverse (step_pos is_reverse pos) ns of
        (vs, pos') \<Rightarrow> ((node_id, IntPos pos, [n]) # vs, pos'))"

text \<open>The deletion loop \<open>for n in range(from_len)\<close> (lines 369-374).\<close>

fun del_loop :: "string \<Rightarrow> bool \<Rightarrow> int \<Rightarrow> nat \<Rightarrow> variant list \<times> int" where
  "del_loop node_id is_reverse pos 0 = ([], pos)"
| "del_loop node_id is_reverse pos (Suc k) =
     (case del_loop node_id is_reverse (step_pos is_reverse pos) k of
        (vs, pos') \<Rightarrow> ((node_id, IntPos pos, '' '') # vs, pos'))"

text \<open>The insertion loop (lines 381-388); \<open>pos\<close> does not move.\<close>

fun ins_loop :: "string \<Rightarrow> bool \<Rightarrow> int \<Rightarrow> int \<Rightarrow> string \<Rightarrow> py_error + variant list" where
  "ins_loop node_id is_reverse pos pos_bis [] = Inr []"
| "ins_loop node_id is_reverse pos pos_bis (n # ns) =
     (case (if is_reverse then reverse_complement [n] else Inr [n]) of
        Inl e \<Rightarrow> Inl e
      | Inr n' \<Rightarrow>
          (let new_pos = str_int (pos - 1) @ ''-'' @ str_int pos @ ''_'' @ str_int pos_bis in
           case ins_loop node_id is_reverse pos (step_pos is_reverse pos_bis) ns of
             Inl e \<Rightarrow> Inl e
           | Inr vs \<Rightarrow> Inr ((node_id, StrPos new_pos, n') # vs)))"

text \<open>One edit: the variants it yields and the cursor \<open>pos\<close> after it.\<close>

definition edit_variants ::
  "string \<Rightarrow> bool \<Rightarrow> int \<Rightarrow> edit \<Rightarrow> py_error + (variant list \<times> int)" where
  "edit_variants node_id is_reverse pos e =
     (let from_len = from_len_of e; to_len = to_len_of e in
      if from_len = to_len then
        (case edit_sequence e of
           None \<Rightarrow> Inr ([], if is_reverse then pos - from_len else pos + from_len)
         | Some s \<Rightarrow> Inr (subst_loop node_id is_reverse pos s))
      else
        (case edit_sequence e of
           None \<Rightarrow> Inr (del_loop node_id is_reverse pos (nat from_len))
         | Some s \<Rightarrow>
             (case ins_loop node_id is_reverse pos
                     (if is_reverse then int (length s) - 1 else 0) s of
                Inl err \<Rightarrow> Inl err
              | Inr vs \<Rightarrow> Inr (vs, pos))))"

fun edits_variants ::
  "string \<Rightarrow> bool \<Rightarrow> int \<Rightarrow> edit list \<Rightarrow> py_error + variant list" where
  "edits_variants node_id is_reverse pos [] = Inr []"
| "edits_variants node_id is_reverse pos (e # es) =
     (case edit_variants node_id is_reverse pos e of
        Inl err \<Rightarrow> Inl err
      | Inr (vs, pos') \<Rightarrow>
          (case edits_variants node_id is_reverse pos' es of
             Inl err \<Rightarrow> Inl err
           | Inr ws \<Rightarrow> Inr (vs @ ws)))"

definition is_reverse_of :: "mapping_step \<Rightarrow> bool" where
  "is_reverse_of nd = (case pos_is_reverse (step_position nd) of None \<Rightarrow> False | Some b \<Rightarrow> True)"

definition step_variants :: "pangenome \<Rightarrow> mapping_step \<Rightarrow> py_error + variant list" where
  "step_variants g nd =
     (let node_id = pos_node_id (step_position nd);
          offset = (case pos_offset (step_position nd) of None \<Rightarrow> 0 | Some x \<Rightarrow> x);
          is_reverse = is_reverse_of nd in
      if is_reverse then
        (case get_node g node_id of
           Inl err \<Rightarrow> Inl err
         | Inr n \<Rightarrow>
             edits_variants node_id is_reverse (int (length (node_sequence n)) - 1 - offset)
               (step_edit nd))
      else edits_variants node_id is_reverse offset (step_edit nd))"

fun steps_variants :: "pangenome \<Rightarrow> mapping_step list \<Rightarrow> py_error + variant list" where
  "steps_variants g [] = Inr []"
| "steps_variants g (nd # nds) =
     (case step_variants g nd of
        Inl err \<Rightarrow> Inl err
      | Inr vs \<Rightarrow>
          (case steps_variants g nds of Inl err \<Rightarrow> Inl err | Inr ws \<Rightarrow> Inr (vs @ ws)))"

text \<open>
  \<open>get_variants\<close> is a generator; its only consumer collects everything it yields in a
  list, so the model returns that list, or the exception raised on the way.
\<close>

definition get_variants :: "pangenome \<Rightarrow> subpath_entry \<Rightarrow> py_error + variant list" where
  "get_variants g mapping_node = steps_variants g (sub_mapping mapping_node)"

section \<open>Best-path resolver: BFS\<close>

text \<open>
  The class \<open>Alignment\<close>.  Python's floats (\<open>/\<close> is true division) are modelled by real
  numbers throughout, so a sum of quotients is exact here where the float sum is
  rounded: ten edits of 1/10 add up to 1 in \<open>node_abund\<close> and to 0.9999999999999999
  in Python.  The values stated below are exact in both.
\<close>

record alignment =
  al_nodes :: "(string \<times> real) list"
  al_variants :: "variant list"
  al_len :: int
  al_score :: int
  al_identity :: real

text \<open>
  The double loop over \<open>subpath[i]['path']['mapping']\<close> and the edits of each step, which
  the source writes out twice (lines 405-411 and 442-448): it accumulates
  \<open>(read_len, nb_match, nb_aligned)\<close> from \<open>(0, 0, 0)\<close>.
\<close>

definition edit_contrib :: "int \<times> int \<times> int \<Rightarrow> edit \<Rightarrow> int \<times> int \<times> int" where
  "edit_contrib acc e =
     (case acc of (read_len, nb_match, nb_aligned) \<Rightarrow>
        (let from_len = from_len_of e; to_len = to_len_of e in
         (read_len + to_len,
          nb_match + (if from_len = to_len \<and> edit_sequence e = None then to_len else 0),
          nb_aligned + min from_len to_len)))"

definition contrib :: "subpath_entry \<Rightarrow> int \<times> int \<times> int" where
  "contrib sp = foldl (\<lambda>acc nd. foldl edit_contrib acc (step_edit nd)) (0, 0, 0) (sub_mapping sp)"

definition score_of :: "subpath_entry \<Rightarrow> int" where
  "score_of sp = (case sub_score sp of None \<Rightarrow> 0 | Some s \<Rightarrow> s)"

text \<open>
  A path prefix is the tuple \<open>(path, read_len, score, nb_match, nb_aligned)\<close>;
  \<open>current_paths\<close> maps the last subpath index of a prefix to the prefixes ending there.
\<close>

type_synonym prefix = "nat list \<times> int \<times> int \<times> int \<times> int"

type_synonym frontier = "(nat, prefix list) dict"

definition prefix_len :: "prefix \<Rightarrow> int" where
  "prefix_len t = fst (snd t)"

definition prefix_score :: "prefix \<Rightarrow> int" where
  "prefix_score t = fst (snd (snd t))"

text \<open>
  The two tuples the source builds: the singleton prefix appended for a start index
  (line 417; the index is in range there), and the prefix appended for a child
  (lines 465, 471 and 473), which extends a prefix ending at the current node by the
  child's own read length, score, match count and aligned count.
\<close>

definition root_prefix :: "subpath_entry list \<Rightarrow> nat \<Rightarrow> prefix" where
  "root_prefix subpath start =
     (case contrib (subpath ! start) of (read_len, nb_match, nb_aligned) \<Rightarrow>
        ([start], read_len, score_of (subpath ! start), nb_match, nb_aligned))"

definition extend_prefix :: "prefix \<Rightarrow> nat \<Rightarrow> subpath_entry \<Rightarrow> prefix" where
  "extend_prefix t child sp =
     (case t of (current_path, current_len, current_score, current_match, current_aligned) \<Rightarrow>
      case contrib sp of (read_len, nb_match, nb_aligned) \<Rightarrow>
        (current_path @ [child], current_len + read_len, current_score + score_of sp,
         current_match + nb_match, current_aligned + nb_aligned))"

text \<open>
  Step 1, the loop \<open>for start in range(len(subpath))\<close>.  The handler
  \<open>except IndexError: continue\<close> is the \<open>Inl\<close> branch of the index.
\<close>

fun seed_loop ::
  "subpath_entry list \<Rightarrow> nat list \<Rightarrow> nat list \<times> frontier \<Rightarrow> nat list \<times> frontier" where
  "seed_loop subpath [] st = st"
| "seed_loop subpath (start # rest) (queue, current_paths) =
     (case py_index subpath start of
        Inl e \<Rightarrow> seed_loop subpath rest (queue, current_paths)
      | Inr sp \<Rightarrow>
          (case contrib sp of (read_len, nb_match, nb_aligned) \<Rightarrow>
             seed_loop subpath rest
               (queue @ [start],
                defaultdict_append
                  (if dict_has current_paths start then current_paths
                   else dict_set current_paths start [])
                  start ([start], read_len, score_of sp, nb_match, nb_aligned))))"

definition seed :: "subpath_entry list \<Rightarrow> nat list \<times> frontier" where
  "seed subpath = seed_loop subpath [0..<length subpath] ([], [])"

text \<open>
  The loop \<open>for (current_path, ...) in current_paths[current_node]\<close> (lines 460-473) for
  one child.  \<open>todo\<close> is what is left of the list being iterated, \<open>child_paths\<close> is
  \<open>current_paths[child]\<close>.  When \<open>child = current_node\<close> the two are one list object, so
  an \<open>append\<close> to \<open>current_paths[child]\<close> also lengthens the iteration; \<open>aliased\<close> says
  so, and it ends when \<open>current_paths[child] = []\<close> rebinds the key to a new list.
  \<open>extend_step\<close> is one iteration of the body.  With aliasing the loop need not end,
  hence the fuel: \<open>None\<close> is "did not return".
\<close>

definition extend_step ::
  "nat \<Rightarrow> int \<Rightarrow> int \<times> int \<times> int \<Rightarrow> bool \<Rightarrow> prefix \<Rightarrow> prefix list \<Rightarrow> prefix list
     \<Rightarrow> bool \<times> prefix list \<times> prefix list" where
  "extend_step child child_score c aliased t todo child_paths =
     (case t of (current_path, current_len, current_score, current_match, current_aligned) \<Rightarrow>
      case c of (read_len, nb_match, nb_aligned) \<Rightarrow>
        (let updated_score = current_score + child_score;
             updated_match = current_match + nb_match;
             updated_aligned = current_aligned + nb_aligned;
             new = (current_path @ [child], current_len + read_len, updated_score,
                    updated_match, updated_aligned)
         in case child_paths of
              [] \<Rightarrow> (aliased, if aliased then todo @ [new] else todo, [new])
            | b # bs \<Rightarrow>
                (let best_previous_score = prefix_score b in
                 if updated_score > best_previous_score then (False, todo, [new])
                 else if updated_score = best_previous_score then
                   (aliased, if aliased then todo @ [new] else todo, child_paths @ [new])
                 else (aliased, todo, child_paths))))"

fun extend_prefixes ::
  "nat \<Rightarrow> nat \<Rightarrow> int \<Rightarrow> int \<times> int \<times> int \<Rightarrow> bool \<Rightarrow> prefix list \<Rightarrow> prefix list
     \<Rightarrow> prefix list option" where
  "extend_prefixes 0 child child_score c aliased todo child_paths =
     (case todo of [] \<Rightarrow> Some child_paths | t # ts \<Rightarrow> None)"
| "extend_prefixes (Suc fuel) child child_score c aliased todo child_paths =
     (case todo of
        [] \<Rightarrow> Some child_paths
      | t # ts \<Rightarrow>
          (case extend_step child child_score c aliased t ts child_paths of
             (aliased', todo', child_paths') \<Rightarrow>
               extend_prefixes fuel child child_score c aliased' todo' child_paths'))"

text \<open>The loop \<open>for child in subpath[current_node]['next']\<close> (lines 432-473).\<close>

fun for_children ::
  "nat \<Rightarrow> subpath_entry list \<Rightarrow> nat \<Rightarrow> nat list \<Rightarrow> nat list \<times> frontier
     \<Rightarrow> (py_error + nat list \<times> frontier) option" where
  "for_children fuel subpath current_node [] st = Some (Inr st)"
| "for_children fuel subpath current_node (child # rest) (queue, current_paths) =
     (let queue' = (if child \<in> set queue then queue else queue @ [child]) in
      case py_index subpath child of
        Inl e \<Rightarrow> Some (Inl e)
      | Inr sp \<Rightarrow>
          (let cp = (if dict_has current_paths child then current_paths
                     else dict_set current_paths child [])
           in case dict_get cp current_node of
                Inl e \<Rightarrow> Some (Inl e)
              | Inr todo \<Rightarrow>
                  (case dict_get cp child of
                     Inl e \<Rightarrow> Some (Inl e)
                   | Inr child_paths \<Rightarrow>
                       (case extend_prefixes fuel child (score_of sp) (contrib sp)
                               (child = current_node) todo child_paths of
                          None \<Rightarrow> None
                        | Some child_paths' \<Rightarrow>
                            for_children fuel subpath current_node rest
                              (queue', dict_set cp child child_paths')))))"

text \<open>
  The loop \<open>while queue\<close> (lines 423-477); \<open>seq_len\<close> is \<open>len(aln['sequence'])\<close>.  A
  cyclic \<open>next\<close> relation can keep it running, hence the fuel.
\<close>

fun bfs_while ::
  "nat \<Rightarrow> subpath_entry list \<Rightarrow> nat \<Rightarrow> nat list \<Rightarrow> frontier \<Rightarrow> (py_error + frontier) option"
  where
  "bfs_while 0 subpath seq_len queue current_paths =
     (case queue of [] \<Rightarrow> Some (Inr current_paths) | q # qs \<Rightarrow> None)"
| "bfs_while (Suc fuel) subpath seq_len queue current_paths =
     (case queue of
        [] \<Rightarrow> Some (Inr current_paths)
      | current_node # queue \<Rightarrow>
     (case py_index subpath current_node of
        Inl e \<Rightarrow> Some (Inl e)
      | Inr sp \<Rightarrow>
          (case sub_next sp of
             None \<Rightarrow> bfs_while fuel subpath seq_len queue current_paths
           | Some children \<Rightarrow>
               (case dict_get current_paths current_node of
                  Inl e \<Rightarrow> Some (Inl e)
                | Inr ps \<Rightarrow>
                    if list_all (\<lambda>i. prefix_len i = int seq_len) ps then
                      bfs_while fuel subpath seq_len queue current_paths
                    else
                      (case for_children fuel subpath current_node children
                              (queue, current_paths) of
                         None \<Rightarrow> None
                       | Some (Inl e) \<Rightarrow> Some (Inl e)
                       | Some (Inr (queue', current_paths')) \<Rightarrow>
                           bfs_while fuel subpath seq_len queue'
                             (dict_pop current_paths' current_node))))))"

text \<open>
  Collecting \<open>final_paths\<close> (lines 479-504).  \<open>node_abund\<close> is the loop over the edits of
  one mapping step; \<open>bump_node\<close> adds the abundance to the first pair of
  \<open>alignment.nodes\<close> with that id, or appends a new pair.
\<close>

fun node_abund :: "pangenome \<Rightarrow> string \<Rightarrow> edit list \<Rightarrow> real \<Rightarrow> py_error + real" where
  "node_abund g nodeID [] abund = Inr abund"
| "node_abund g nodeID (e # es) abund =
     (case get_node g nodeID of
        Inl err \<Rightarrow> Inl err
      | Inr n \<Rightarrow>
          if length (node_sequence n) = 0 then Inl ZeroDivisionError
          else node_abund g nodeID es
                 (abund + real_of_int (min (from_len_of e) (to_len_of e))
                          / real (length (node_sequence n))))"

fun bump_node :: "(string \<times> real) list \<Rightarrow> string \<Rightarrow> real \<Rightarrow> (string \<times> real) list" where
  "bump_node [] nodeID abund = [(nodeID, abund)]"
| "bump_node ((i, a) # ns) nodeID abund =
     (if i = nodeID then (i, a + abund) # ns else (i, a) # bump_node ns nodeID abund)"

fun walk_mapping ::
  "pangenome \<Rightarrow> mapping_step list \<Rightarrow> (string \<times> real) list \<Rightarrow> py_error + (string \<times> real) list"
  where
  "walk_mapping g [] ns = Inr ns"
| "walk_mapping g (nd # nds) ns =
     (let nodeID = pos_node_id (step_position nd) in
      case node_abund g nodeID (step_edit nd) 0 of
        Inl err \<Rightarrow> Inl err
      | Inr abund \<Rightarrow> walk_mapping g nds (bump_node ns nodeID abund))"

fun walk_path ::
  "pangenome \<Rightarrow> subpath_entry list \<Rightarrow> nat list \<Rightarrow> (string \<times> real) list \<times> variant list
     \<Rightarrow> py_error + (string \<times> real) list \<times> variant list" where
  "walk_path g subpath [] st = Inr st"
| "walk_path g subpath (subpath_node # rest) (ns, variants) =
     (case py_index subpath subpath_node of
        Inl err \<Rightarrow> Inl err
      | Inr sp \<Rightarrow>
          (case walk_mapping g (sub_mapping sp) ns of
             Inl err \<Rightarrow> Inl err
           | Inr ns' \<Rightarrow>
               (case get_variants g sp of
                  Inl err \<Rightarrow> Inl err
                | Inr vs \<Rightarrow> walk_path g subpath rest (ns', variants @ vs))))"

definition make_alignment ::
  "pangenome \<Rightarrow> subpath_entry list \<Rightarrow> prefix \<Rightarrow> py_error + alignment" where
  "make_alignment g subpath tupl =
     (case tupl of (p, read_len, score, nb_match, nb_aligned) \<Rightarrow>
        (case walk_path g subpath p ([], []) of
           Inl err \<Rightarrow> Inl err
         | Inr (ns, variants) \<Rightarrow>
             if nb_aligned = 0 then Inl ZeroDivisionError
             else Inr \<lparr>al_nodes = ns, al_variants = variants, al_len = read_len,
                       al_score = score,
                       al_identity = real_of_int nb_match / real_of_int nb_aligned\<rparr>))"

fun make_alignments ::
  "pangenome \<Rightarrow> subpath_entry list \<Rightarrow> prefix list \<Rightarrow> py_error + alignment list" where
  "make_alignments g subpath [] = Inr []"
| "make_alignments g subpath (tupl # rest) =
     (case make_alignment g subpath tupl of
        Inl err \<Rightarrow> Inl err
      | Inr a \<Rightarrow>
          (case make_alignments g subpath rest of
             Inl err \<Rightarrow> Inl err
           | Inr as \<Rightarrow> Inr (a # as)))"

definition final_paths_of ::
  "pangenome \<Rightarrow> subpath_entry list \<Rightarrow> frontier \<Rightarrow> py_error + alignment list" where
  "final_paths_of g subpath current_paths =
     make_alignments g subpath (concat (map snd current_paths))"

text \<open>
  \<open>BFS(aln)\<close>.  The first argument is the fuel of the \<open>while\<close> loop; \<open>None\<close> means the
  loop did not finish within it.
\<close>

definition BFS :: "nat \<Rightarrow> pangenome \<Rightarrow> aln_record \<Rightarrow> (py_error + alignment list) option" where
  "BFS fuel g aln =
     (case aln_subpath aln of
        None \<Rightarrow> Some (Inl KeyError)
      | Some subpath \<Rightarrow>
          (case seed subpath of (queue, current_paths) \<Rightarrow>
             (case bfs_while fuel subpath (length (aln_sequence aln)) queue current_paths of
                None \<Rightarrow> None
              | Some (Inl e) \<Rightarrow> Some (Inl e)
              | Some (Inr final) \<Rightarrow> Some (final_paths_of g subpath final))))"

section \<open>Streaming parser: parse_vgmpmap\<close>

text \<open>
  \<open>reads\<close> maps a read name to its mate slots (keyed by the read sequence), each holding
  a list of Alignments; \<open>variants\<close> maps node id, position and base to the names of the
  reads that carry the variant.
\<close>

type_synonym reads = "(string, (string, alignment list) dict) dict"

type_synonym variants = "(string, (vpos, (string, string list) dict) dict) dict"

record parser_state =
  ps_reads :: reads
  ps_variants :: variants
  ps_previous_read :: string

text \<open>The four statements executed for one \<open>tupl\<close> (lines 558-561).\<close>

definition add_variant :: "string \<Rightarrow> variants \<Rightarrow> variant \<Rightarrow> variants" where
  "add_variant previous_read vs tupl =
     (case tupl of (n, p, b) \<Rightarrow>
        (let by_pos = (case map_of vs n of None \<Rightarrow> [] | Some d \<Rightarrow> d);
             by_base = (case map_of by_pos p of None \<Rightarrow> [] | Some d \<Rightarrow> d);
             names = (case map_of by_base b of None \<Rightarrow> [] | Some l \<Rightarrow> l)
         in dict_set vs n (dict_set by_pos p (dict_set by_base b (names @ [previous_read])))))"

text \<open>
  The body guarded by \<open>previous_read in reads\<close> (lines 553-561, and again 567-574):
  variants are recorded only if every slot of the read holds exactly one Alignment.
\<close>

definition process_variants :: "reads \<Rightarrow> variants \<Rightarrow> string \<Rightarrow> variants" where
  "process_variants rs vs previous_read =
     (case map_of rs previous_read of
        None \<Rightarrow> vs
      | Some slots \<Rightarrow>
          if list_all (\<lambda>slot. length (snd slot) = 1) slots then
            foldl (\<lambda>acc slot. foldl (add_variant previous_read) acc (al_variants (hd (snd slot))))
              vs slots
          else vs)"

text \<open>
  Lines 538-550: what becomes of \<open>reads\<close> for a record with Alignments \<open>final_paths\<close>
  (first element \<open>fp\<close>) and a non-empty sequence.  \<open>reads\<close> is a \<open>defaultdict(dict)\<close>, so
  \<open>reads[aln['name']]\<close> creates the entry of the name when it is read.
\<close>

definition store_paths ::
  "real \<Rightarrow> reads \<Rightarrow> string \<Rightarrow> string \<Rightarrow> alignment \<Rightarrow> alignment list \<Rightarrow> py_error + reads" where
  "store_paths thr rs name sequence fp final_paths =
     (let new_score = real_of_int (al_score fp) / real (length sequence) in
      if new_score \<ge> thr then
        (let slots = (case map_of rs name of None \<Rightarrow> [] | Some d \<Rightarrow> d) in
         case map_of slots sequence of
           None \<Rightarrow> Inr (dict_set rs name (dict_set slots sequence final_paths))
         | Some stored \<Rightarrow>
             (case stored of
                [] \<Rightarrow> Inl IndexError
              | c # cs \<Rightarrow>
                  (let current_score = real_of_int (al_score c) / real (length sequence) in
                   if new_score > current_score then
                     Inr (dict_set rs name (dict_set slots sequence final_paths))
                   else if new_score = current_score then
                     Inr (dict_set rs name (dict_set slots sequence (stored @ final_paths)))
                   else Inr (dict_set rs name slots))))
      else Inr rs)"

text \<open>The body of \<open>for line in aln_json\<close> for one parsed line.\<close>

definition parse_record ::
  "nat \<Rightarrow> pangenome \<Rightarrow> real \<Rightarrow> parser_state \<Rightarrow> aln_record \<Rightarrow> (py_error + parser_state) option"
  where
  "parse_record fuel g thr st aln =
     (case aln_subpath aln of
        None \<Rightarrow> Some (Inr st)
      | Some subpath \<Rightarrow>
          (case BFS fuel g aln of
             None \<Rightarrow> None
           | Some (Inl e) \<Rightarrow> Some (Inl e)
           | Some (Inr final_paths) \<Rightarrow>
               (case final_paths of
                  [] \<Rightarrow> Some (Inl IndexError)
                | fp # fps \<Rightarrow>
                    if length (aln_sequence aln) = 0 then Some (Inl ZeroDivisionError)
                    else
                      (case store_paths thr (ps_reads st) (aln_name aln) (aln_sequence aln)
                              fp final_paths of
                         Inl e \<Rightarrow> Some (Inl e)
                       | Inr rs \<Rightarrow>
                           Some (Inr \<lparr>ps_reads = rs,
                             ps_variants =
                               (if aln_name aln = ps_previous_read st then ps_variants st
                                else process_variants rs (ps_variants st) (ps_previous_read st)),
                             ps_previous_read = aln_name aln\<rparr>)))))"

fun parse_records ::
  "nat \<Rightarrow> pangenome \<Rightarrow> real \<Rightarrow> parser_state \<Rightarrow> aln_record list
     \<Rightarrow> (py_error + parser_state) option" where
  "parse_records fuel g thr st [] = Some (Inr st)"
| "parse_records fuel g thr st (aln # rest) =
     (case parse_record fuel g thr st aln of
        None \<Rightarrow> None
      | Some (Inl e) \<Rightarrow> Some (Inl e)
      | Some (Inr st') \<Rightarrow> parse_records fuel g thr st' rest)"

text \<open>
  \<open>parse_vgmpmap(json_file, thr)\<close> on the parsed lines of the file.  After the loop the
  variable \<open>aln\<close> is the last line (unbound if the file is empty), and lines 567-574
  repeat the guard \<open>aln['name'] != previous_read and previous_read in reads\<close>.
\<close>

definition parse_vgmpmap ::
  "nat \<Rightarrow> pangenome \<Rightarrow> aln_record list \<Rightarrow> real \<Rightarrow> (py_error + reads \<times> variants) option" where
  "parse_vgmpmap fuel g json_file thr =
     (case parse_records fuel g thr
             \<lparr>ps_reads = [], ps_variants = [], ps_previous_read = []\<rparr> json_file of
        None \<Rightarrow> None
      | Some (Inl e) \<Rightarrow> Some (Inl e)
      | Some (Inr st) \<Rightarrow>
          (case json_file of
             [] \<Rightarrow> Some (Inl NameError)
           | l # ls \<Rightarrow>
               (let aln = last json_file in
                Some (Inr (ps_reads st,
                  (if aln_name aln = ps_previous_read st then ps_variants st
                   else process_variants (ps_reads st) (ps_variants st)
                          (ps_previous_read st)))))))"

section \<open>Path matcher: get_matching_path\<close>

text \<open>\<open>xs[a:b]\<close> with Python's treatment of negative and out-of-range bounds.\<close>

definition slice_bound :: "nat \<Rightarrow> int \<Rightarrow> nat" where
  "slice_bound n i = (if i < 0 then nat (max 0 (i + int n)) else min (nat i) n)"

definition py_slice :: "'a list \<Rightarrow> int \<Rightarrow> int \<Rightarrow> 'a list" where
  "py_slice xs a b =
     (let lo = slice_bound (length xs) a; hi = slice_bound (length xs) b
      in take (hi - lo) (drop lo xs))"

fun match_occurrences ::
  "pangenome \<Rightarrow> string list \<Rightarrow> string \<Rightarrow> (nat \<times> string) list \<Rightarrow> py_error + string list" where
  "match_occurrences g node_list p [] = Inr []"
| "match_occurrences g node_list p (idx # rest) =
     (case get_path g p of
        Inl e \<Rightarrow> Inl e
      | Inr pth \<Rightarrow>
          (let i = int (fst idx); n = int (length node_list);
               hit = (py_slice (path_nodes pth) i (i + n) = node_list
                      \<or> py_slice (path_nodes pth) (i - n + 1) (i + 1) = rev node_list)
           in case match_occurrences g node_list p rest of
                Inl e \<Rightarrow> Inl e
              | Inr found \<Rightarrow> Inr (if hit then p # found else found)))"

fun match_paths ::
  "pangenome \<Rightarrow> string list \<Rightarrow> (string, (nat \<times> string) list) dict \<Rightarrow> py_error + string list"
  where
  "match_paths g node_list [] = Inr []"
| "match_paths g node_list ((p, occs) # rest) =
     (case match_occurrences g node_list p occs of
        Inl e \<Rightarrow> Inl e
      | Inr found \<Rightarrow>
          (case match_paths g node_list rest of
             Inl e \<Rightarrow> Inl e
           | Inr found' \<Rightarrow> Inr (found @ found')))"

definition get_matching_path :: "pangenome \<Rightarrow> string list \<Rightarrow> py_error + string list" where
  "get_matching_path g node_list =
     (case node_list of
        [] \<Rightarrow> Inl IndexError
      | start_node # ns \<Rightarrow>
          (case get_node g start_node of
             Inl e \<Rightarrow> Inl e
           | Inr n \<Rightarrow> match_paths g node_list (node_pathsCrossed n)))"

section \<open>Abundance aggregator: get_abundance\<close>

subsection \<open>The loop over the reads (lines 612-667)\<close>

record gene_abund =
  uniq_count :: real
  nodes_abund :: "(string, real) dict"
  nb_subst :: "(nat, nat) dict"

text \<open>
  The local variables of the loop.  \<open>path_seq\<close> is assigned only inside
  \<open>if gene not in d_abund\<close>; \<open>None\<close> is the unbound variable.
\<close>

record abund_state =
  multi_reads :: "(string \<times> string) list"
  ambig_reads :: "(string, (string \<times> string) list) dict"
  nocolor_reads :: "(string, (string \<times> string) list) dict"
  max_c :: nat
  d_abund :: "(string, gene_abund) dict"
  path_seq :: "string option"

text \<open>\<open>[d_idt[i]['genes'] for i in found]\<close>.\<close>

fun genes_of :: "(string, idt) dict \<Rightarrow> string list \<Rightarrow> py_error + string list" where
  "genes_of d_idt [] = Inr []"
| "genes_of d_idt (i # rest) =
     (case idt_genes (idt_entry d_idt i) of
        None \<Rightarrow> Inl KeyError
      | Some gene \<Rightarrow>
          (case genes_of d_idt rest of Inl e \<Rightarrow> Inl e | Inr gs \<Rightarrow> Inr (gene # gs)))"

text \<open>
  The initialisation loop \<open>for n in gene.split('-')\<close> (lines 649-651): every node
  abundance is set to 0 and \<open>path_seq\<close> grows by the node's sequence.
\<close>

fun init_nodes ::
  "pangenome \<Rightarrow> string list \<Rightarrow> (string, real) dict \<times> string
     \<Rightarrow> py_error + (string, real) dict \<times> string" where
  "init_nodes g [] st = Inr st"
| "init_nodes g (n # ns) (na, pseq) =
     (case get_node g n of
        Inl e \<Rightarrow> Inl e
      | Inr nd \<Rightarrow> init_nodes g ns (dict_set na n 0, pseq @ node_sequence nd))"

text \<open>\<open>for i in align.nodes: d_abund[gene]['nodes_abund'][i[0]] += i[1]\<close>.\<close>

fun add_nodes_abund ::
  "(string, real) dict \<Rightarrow> (string \<times> real) list \<Rightarrow> py_error + (string, real) dict" where
  "add_nodes_abund na [] = Inr na"
| "add_nodes_abund na (i # rest) =
     (case dict_get na (fst i) of
        Inl e \<Rightarrow> Inl e
      | Inr a \<Rightarrow> add_nodes_abund (dict_set na (fst i) (a + snd i)) rest)"

definition is_int_pos :: "variant \<Rightarrow> bool" where
  "is_int_pos t = (case fst (snd t) of IntPos i \<Rightarrow> True | StrPos s \<Rightarrow> False)"

text \<open>
  The case of a unique match (lines 640-667) for the read sequence \<open>pair\<close>, its single
  Alignment \<open>align\<close> and the gene found.
\<close>

definition unique_match ::
  "pangenome \<Rightarrow> abund_state \<Rightarrow> string \<Rightarrow> alignment \<Rightarrow> string \<Rightarrow> py_error + abund_state" where
  "unique_match g st pair align gene =
     (case (if dict_has (d_abund st) gene then Inr (d_abund st, path_seq st)
            else (case init_nodes g (split CHR ''-'' gene) ([], []) of
                    Inl e \<Rightarrow> Inl e
                  | Inr (na, pseq) \<Rightarrow>
                      Inr (dict_set (d_abund st) gene
                             \<lparr>uniq_count = 0, nodes_abund = na, nb_subst = []\<rparr>,
                           Some pseq))) of
        Inl e \<Rightarrow> Inl e
      | Inr (da, ps) \<Rightarrow>
          (case ps of
             None \<Rightarrow> Inl NameError
           | Some pseq \<Rightarrow>
               if length pseq = 0 then Inl ZeroDivisionError
               else
                 (case dict_get da gene of
                    Inl e \<Rightarrow> Inl e
                  | Inr ga \<Rightarrow>
                      (case add_nodes_abund (nodes_abund ga) (al_nodes align) of
                         Inl e \<Rightarrow> Inl e
                       | Inr na \<Rightarrow>
                           (let c = length (filter is_int_pos (al_variants align));
                                seen = (case map_of (nb_subst ga) c of None \<Rightarrow> 0 | Some k \<Rightarrow> k)
                            in Inr (st\<lparr>max_c := (if c > max_c st then c else max_c st),
                                 d_abund := dict_set da gene
                                   (ga\<lparr>uniq_count := uniq_count ga
                                          + real (length pair) / real (length pseq),
                                       nodes_abund := na,
                                       nb_subst := dict_set (nb_subst ga) c (seen + 1)\<rparr>),
                                 path_seq := Some pseq\<rparr>))))))"

text \<open>
  The key of \<open>nocolor_reads\<close> for a read without a matching path (line 631): the
  cluster of the first path crossing the first node of the Alignment.
\<close>

definition nocolor_key ::
  "pangenome \<Rightarrow> (string, idt) dict \<Rightarrow> string list \<Rightarrow> py_error + string" where
  "nocolor_key g d_idt align_nodes =
     (case align_nodes of
        [] \<Rightarrow> Inl IndexError
      | n0 # ns \<Rightarrow>
          (case get_node g n0 of
             Inl e \<Rightarrow> Inl e
           | Inr nd \<Rightarrow>
               (case dict_keys (node_pathsCrossed nd) of
                  [] \<Rightarrow> Inl IndexError
                | p # ps \<Rightarrow>
                    (case idt_cluster (idt_entry d_idt p) of
                       None \<Rightarrow> Inl KeyError
                     | Some c \<Rightarrow> Inr c))))"

text \<open>
  The body of \<open>for pair in reads[read]\<close>.  \<open>list(set(...))\<close> keeps one copy of each
  gene in an order Python does not fix; \<open>remdups\<close> is one such order, and the order
  matters only to the order in which \<open>ambig_reads\<close> gets its keys.
\<close>

definition process_pair ::
  "pangenome \<Rightarrow> (string, idt) dict \<Rightarrow> abund_state \<Rightarrow> string \<Rightarrow> string \<times> alignment list
     \<Rightarrow> py_error + abund_state" where
  "process_pair g d_idt st read slot =
     (case slot of (pair, aligns) \<Rightarrow>
        if length aligns > 1 then Inr (st\<lparr>multi_reads := multi_reads st @ [(read, pair)]\<rparr>)
        else
          (case aligns of
             [] \<Rightarrow> Inl IndexError
           | align # others \<Rightarrow>
               (let align_nodes = map fst (al_nodes align) in
                case get_matching_path g align_nodes of
                  Inl e \<Rightarrow> Inl e
                | Inr found \<Rightarrow>
                    (case genes_of d_idt found of
                       Inl e \<Rightarrow> Inl e
                     | Inr gs \<Rightarrow>
                         (let genes_found = remdups gs in
                          if length genes_found = 0 then
                            (case nocolor_key g d_idt align_nodes of
                               Inl e \<Rightarrow> Inl e
                             | Inr k \<Rightarrow>
                                 Inr (st\<lparr>nocolor_reads :=
                                   defaultdict_append (nocolor_reads st) k (read, pair)\<rparr>))
                          else if length genes_found > 1 then
                            Inr (st\<lparr>ambig_reads :=
                              foldl (\<lambda>d i. defaultdict_append d i (read, pair))
                                (ambig_reads st) genes_found\<rparr>)
                          else unique_match g st pair align (hd genes_found))))))"

fun process_pairs ::
  "pangenome \<Rightarrow> (string, idt) dict \<Rightarrow> abund_state \<Rightarrow> string
     \<Rightarrow> (string, alignment list) dict \<Rightarrow> py_error + abund_state" where
  "process_pairs g d_idt st read [] = Inr st"
| "process_pairs g d_idt st read (slot # rest) =
     (case process_pair g d_idt st read slot of
        Inl e \<Rightarrow> Inl e
      | Inr st' \<Rightarrow> process_pairs g d_idt st' read rest)"

fun process_reads ::
  "pangenome \<Rightarrow> (string, idt) dict \<Rightarrow> abund_state \<Rightarrow> reads \<Rightarrow> py_error + abund_state" where
  "process_reads g d_idt st [] = Inr st"
| "process_reads g d_idt st ((read, slots) # rest) =
     (case process_pairs g d_idt st read slots of
        Inl e \<Rightarrow> Inl e
      | Inr st' \<Rightarrow> process_reads g d_idt st' rest)"

definition abund_init :: abund_state where
  "abund_init = \<lparr>multi_reads = [], ambig_reads = [], nocolor_reads = [], max_c = 0,
                  d_abund = [], path_seq = None\<rparr>"

definition get_abundance_reads ::
  "pangenome \<Rightarrow> (string, idt) dict \<Rightarrow> reads \<Rightarrow> py_error + abund_state" where
  "get_abundance_reads g d_idt rs = process_reads g d_idt abund_init rs"

subsection \<open>Finalizing the strain records (lines 728-733)\<close>

text \<open>
  \<open>int(a)\<close> on a float truncates towards zero.  \<open>np.mean\<close> and \<open>np.std\<close> of an empty
  list are \<open>nan\<close>, here \<open>None\<close>; \<open>np.std\<close> is the population standard deviation.
\<close>

definition py_int :: "real \<Rightarrow> int" where
  "py_int a = (if a < 0 then \<lceil>a\<rceil> else \<lfloor>a\<rfloor>)"

definition np_mean :: "real list \<Rightarrow> real option" where
  "np_mean xs = (case xs of [] \<Rightarrow> None | y # ys \<Rightarrow> Some (sum_list xs / real (length xs)))"

definition np_std :: "real list \<Rightarrow> real option" where
  "np_std xs =
     (case np_mean xs of
        None \<Rightarrow> None
      | Some m \<Rightarrow> Some (sqrt (sum_list (map (\<lambda>x. (abs (x - m))\<^sup>2) xs) / real (length xs))))"

text \<open>\<open>[int(a) / int(b) for a,b in zip(abund, nb_copy)]\<close>.\<close>

fun abund_norm :: "real list \<Rightarrow> int list \<Rightarrow> py_error + real list" where
  "abund_norm (a # as) (b # bs) =
     (if b = 0 then Inl ZeroDivisionError
      else (case abund_norm as bs of
              Inl e \<Rightarrow> Inl e
            | Inr qs \<Rightarrow> Inr (real_of_int (py_int a) / real_of_int b # qs)))"
| "abund_norm as bs = Inr []"

text \<open>
  A record of \<open>d_strains_abund[s][thr]\<close> before the loop holds the lists \<open>abund\<close> and
  \<open>nb_copy\<close>; the loop replaces \<open>abund\<close> by the mean and adds \<open>std\<close>.  The other
  entries of the record (\<open>nb_genes\<close>, \<open>nb_subst\<close>) are not touched.
\<close>

record strain_stats =
  ss_abund :: "real list"
  ss_nb_copy :: "int list"

record strain_final =
  sf_abund :: "real option"
  sf_std :: "real option"
  sf_nb_copy :: "int list"

definition finalize_record :: "strain_stats \<Rightarrow> py_error + strain_final" where
  "finalize_record r =
     (case abund_norm (ss_abund r) (ss_nb_copy r) of
        Inl e \<Rightarrow> Inl e
      | Inr qs \<Rightarrow> Inr \<lparr>sf_abund = np_mean qs, sf_std = np_std qs, sf_nb_copy = ss_nb_copy r\<rparr>)"

fun finalize_thresholds ::
  "(real, strain_stats) dict \<Rightarrow> py_error + (real, strain_final) dict" where
  "finalize_thresholds [] = Inr []"
| "finalize_thresholds ((thr, r) # rest) =
     (case finalize_record r of
        Inl e \<Rightarrow> Inl e
      | Inr r' \<Rightarrow>
          (case finalize_thresholds rest of
             Inl e \<Rightarrow> Inl e
           | Inr rest' \<Rightarrow> Inr ((thr, r') # rest')))"

fun finalize_strains ::
  "(string, (real, strain_stats) dict) dict
     \<Rightarrow> py_error + (string, (real, strain_final) dict) dict" where
  "finalize_strains [] = Inr []"
| "finalize_strains ((s, by_thr) # rest) =
     (case finalize_thresholds by_thr of
        Inl e \<Rightarrow> Inl e
      | Inr by_thr' \<Rightarrow>
          (case finalize_strains rest of
             Inl e \<Rightarrow> Inl e
           | Inr rest' \<Rightarrow> Inr ((s, by_thr') # rest')))"

text \<open>
  The reading of the specification, for comparison: each sample is divided by its copy
  count as it is, with no conversion to an integer.
\<close>

fun spec_abund_norm :: "real list \<Rightarrow> int list \<Rightarrow> py_error + real list" where
  "spec_abund_norm (a # as) (b # bs) =
     (if b = 0 then Inl ZeroDivisionError
      else (case spec_abund_norm as bs of
              Inl e \<Rightarrow> Inl e
            | Inr qs \<Rightarrow> Inr (a / real_of_int b # qs)))"
| "spec_abund_norm as bs = Inr []"

definition spec_finalize_record :: "strain_stats \<Rightarrow> py_error + strain_final" where
  "spec_finalize_record r =
     (case spec_abund_norm (ss_abund r) (ss_nb_copy r) of
        Inl e \<Rightarrow> Inl e
      | Inr qs \<Rightarrow> Inr \<lparr>sf_abund = np_mean qs, sf_std = np_std qs, sf_nb_copy = ss_nb_copy r\<rparr>)"

section \<open>Concrete inputs\<close>

text \<open>Edits and forward mapping steps with both lengths present, as vg writes them.\<close>

definition mk_edit :: "int \<Rightarrow> int \<Rightarrow> string option \<Rightarrow> edit" where
  "mk_edit f t s = \<lparr>edit_from_length = Some f, edit_to_length = Some t, edit_sequence = s\<rparr>"

definition fwd_step :: "string \<Rightarrow> edit list \<Rightarrow> mapping_step" where
  "fwd_step n es =
     \<lparr>step_position = \<lparr>pos_node_id = n, pos_offset = None, pos_is_reverse = None\<rparr>,
      step_edit = es\<rparr>"

text \<open>A graph of three nodes: node 1 of 10 bases, nodes 2 and 3 of 5 bases.\<close>

definition ex_graph :: pangenome where
  "ex_graph =
     \<lparr>graph_nodes = [(''1'', Node ''1'' ''ACGTACGTAC''), (''2'', Node ''2'' ''ACGTA''),
                      (''3'', Node ''3'' ''ACCTA'')],
      graph_paths = []\<rparr>"

text \<open>
  A read of 15 bases whose alignment ends in a bubble: subpath 0 (score 10) covers node
  1 and has the successors 1 and 2; subpath 1 crosses node 2 with one mismatch (no
  score, hence 0), subpath 2 crosses node 3 without mismatch (score 5).  Both are sinks.
\<close>

definition ex_bubble :: aln_record where
  "ex_bubble =
     \<lparr>aln_name = ''r1'', aln_sequence = ''ACGTACGTACACCTA'',
      aln_subpath = Some
        [\<lparr>sub_mapping = [fwd_step ''1'' [mk_edit 10 10 None]],
          sub_score = Some 10, sub_next = Some [1, 2]\<rparr>,
         \<lparr>sub_mapping = [fwd_step ''2'' [mk_edit 2 2 None, mk_edit 1 1 (Some ''C''),
                                         mk_edit 2 2 None]],
          sub_score = None, sub_next = None\<rparr>,
         \<lparr>sub_mapping = [fwd_step ''3'' [mk_edit 5 5 None]],
          sub_score = Some 5, sub_next = None\<rparr>],
      aln_start = Some [0]\<rparr>"

text \<open>
  A read of 10 bases aligned to node 1 by a single subpath of score 9 with one
  substitution, under a given read name.
\<close>

definition ex_single :: "string \<Rightarrow> aln_record" where
  "ex_single nm =
     \<lparr>aln_name = nm, aln_sequence = ''ACGTTCGTAC'',
      aln_subpath = Some
        [\<lparr>sub_mapping = [fwd_step ''1'' [mk_edit 4 4 None, mk_edit 1 1 (Some ''T''),
                                         mk_edit 5 5 None]],
          sub_score = Some 9, sub_next = None\<rparr>],
      aln_start = Some [0]\<rparr>"

definition ex_single_alignment :: alignment where
  "ex_single_alignment =
     \<lparr>al_nodes = [(''1'', 1)], al_variants = [(''1'', IntPos 4, ''T'')], al_len = 10,
      al_score = 9, al_identity = 9 / 10\<rparr>"

text \<open>A mapped record whose \<open>subpath\<close> array is empty, and an unmapped record.\<close>

definition ex_empty_subpath :: aln_record where
  "ex_empty_subpath =
     \<lparr>aln_name = ''r2'', aln_sequence = ''ACGT'', aln_subpath = Some [], aln_start = None\<rparr>"

definition ex_unmapped :: aln_record where
  "ex_unmapped =
     \<lparr>aln_name = ''r3'', aln_sequence = ''ACGT'', aln_subpath = None, aln_start = None\<rparr>"

text \<open>
  A chain of two subpaths in which the root has a negative score: subpath 0 (score -4)
  precedes subpath 1 (score 5), and the record declares 0 as its only start.
\<close>

definition ex_chain :: aln_record where
  "ex_chain =
     \<lparr>aln_name = ''r4'', aln_sequence = ''ACGTACGTACACGTA'',
      aln_subpath = Some
        [\<lparr>sub_mapping = [fwd_step ''1'' [mk_edit 10 10 None]],
          sub_score = Some (- 4), sub_next = Some [1]\<rparr>,
         \<lparr>sub_mapping = [fwd_step ''2'' [mk_edit 5 5 None]],
          sub_score = Some 5, sub_next = None\<rparr>],
      aln_start = Some [0]\<rparr>"

text \<open>
  The chains of two subpaths: any entry \<open>e0\<close> with subpath 1 as its only successor,
  and any entry \<open>e1\<close> without successor.  Subpath 1 is not a root of the chain.
\<close>

definition chain2 :: "subpath_entry \<Rightarrow> subpath_entry \<Rightarrow> subpath_entry list" where
  "chain2 e0 e1 = [e0\<lparr>sub_next := Some [1]\<rparr>, e1\<lparr>sub_next := None\<rparr>]"

text \<open>A GFA file with two nodes and one link from node 1 to node 2.\<close>

definition ex_gfa_link :: "string list list" where
  "ex_gfa_link =
     [[''S'', ''1'', ''ACGT''], [''S'', ''2'', ''GG''],
      [''L'', ''1'', ''+'', ''2'', ''+'', ''0M'']]"

text \<open>A graph with the single path P over the nodes 1, 2.\<close>

definition ex_gfa_path :: "string list list" where
  "ex_gfa_path =
     [[''S'', ''1'', ''ACGT''], [''S'', ''2'', ''GG''], [''P'', ''P'', ''1+,2+'', ''4M,2M'']]"

text \<open>
  A mapping step on node 1 in reverse orientation at offset 2: a match of two bases and
  then a substitution of two bases, read as AC.
\<close>

definition ex_reverse_subst :: subpath_entry where
  "ex_reverse_subst =
     \<lparr>sub_mapping =
        [\<lparr>step_position = \<lparr>pos_node_id = ''1'', pos_offset = Some 2,
                             pos_is_reverse = Some True\<rparr>,
          step_edit = [mk_edit 2 2 None, mk_edit 2 2 (Some ''AC'')]\<rparr>],
      sub_score = None, sub_next = None\<rparr>"

text \<open>
  Two genes: path pA over node 1 (4 bases) and path pB over node 2 (8 bases), with the
  identity table \<open>generate_clusters_dict\<close> builds for them, and three reads of 4, 8 and
  4 bases, each with one Alignment, on node 1, node 2 and node 1.
\<close>

definition ex_two_genes :: pangenome where
  "ex_two_genes =
     \<lparr>graph_nodes =
        [(''1'', \<lparr>node_ID = ''1'', node_sequence = ''ACGT'',
                  node_pathsCrossed = [(''pA'', [(0, ''+'')])],
                  node_previous = [], node_next = []\<rparr>),
         (''2'', \<lparr>node_ID = ''2'', node_sequence = ''ACGTACGT'',
                  node_pathsCrossed = [(''pB'', [(0, ''+'')])],
                  node_previous = [], node_next = []\<rparr>)],
      graph_paths =
        [(''pA'', \<lparr>path_ID = ''pA'', path_nodes = [''1''], path_sequence = ''ACGT''\<rparr>),
         (''pB'', \<lparr>path_ID = ''pB'', path_nodes = [''2''], path_sequence = ''ACGTACGT''\<rparr>)]\<rparr>"

definition ex_idt :: "(string, idt) dict" where
  "ex_idt = [(''pA'', \<lparr>idt_genes = Some ''1'', idt_cluster = None\<rparr>),
             (''pB'', \<lparr>idt_genes = Some ''2'', idt_cluster = None\<rparr>)]"

definition ex_aln_on :: "string \<Rightarrow> int \<Rightarrow> alignment" where
  "ex_aln_on n k =
     \<lparr>al_nodes = [(n, 1)], al_variants = [], al_len = k, al_score = k, al_identity = 1\<rparr>"

definition ex_read1 :: "string \<times> (string, alignment list) dict" where
  "ex_read1 = (''r1'', [(''ACGT'', [ex_aln_on ''1'' 4])])"

definition ex_read2 :: "string \<times> (string, alignment list) dict" where
  "ex_read2 = (''r2'', [(''ACGTACGT'', [ex_aln_on ''2'' 8])])"

definition ex_read3 :: "string \<times> (string, alignment list) dict" where
  "ex_read3 = (''r3'', [(''ACGT'', [ex_aln_on ''1'' 4])])"

text \<open>One abundance sample 1.5 with copy count 1.\<close>

definition ex_stats :: strain_stats where
  "ex_stats = \<lparr>ss_abund = [3 / 2], ss_nb_copy = [1]\<rparr>"

section \<open>Auxiliary facts\<close>

lemma dict_set_fresh: "map_of d k = None \<Longrightarrow> dict_set d k v = d @ [(k, v)]"
  by (induction d) (auto split: if_splits)

lemma dict_set_last: "map_of d k = None \<Longrightarrow> dict_set (d @ [(k, v)]) k w = d @ [(k, w)]"
  by (induction d) (auto split: if_splits)

lemma defaultdict_append_fresh:
  assumes "map_of d k = None"
  shows "defaultdict_append (if dict_has d k then d else dict_set d k []) k x = d @ [(k, [x])]"
proof -
  have "dict_has d k = False"
    using assms by (simp add: dict_has_def)
  moreover have "map_of (d @ [(k, [])]) k = Some []"
    using assms by (simp add: map_add_def)
  ultimately show ?thesis
    using assms by (simp add: defaultdict_append_def dict_set_fresh dict_set_last)
qed

lemma map_of_upt_fresh: "map_of (map (\<lambda>i. (i, f i)) [0..<k]) k = None"
  by (simp add: map_of_eq_None_iff image_iff)

text \<open>The prefix with which the seeding loop registers the subpath index \<open>i\<close>.\<close>

lemma seed_loop_upt:
  assumes "n \<le> length subpath" and "k \<le> n"
  shows "seed_loop subpath [k..<n]
           ([0..<k],
            map (\<lambda>i. (i, [([i], fst (contrib (subpath ! i)), score_of (subpath ! i),
                            fst (snd (contrib (subpath ! i))),
                            snd (snd (contrib (subpath ! i))))])) [0..<k])
         = ([0..<n],
            map (\<lambda>i. (i, [([i], fst (contrib (subpath ! i)), score_of (subpath ! i),
                            fst (snd (contrib (subpath ! i))),
                            snd (snd (contrib (subpath ! i))))])) [0..<n])"
  using assms
proof (induction "n - k" arbitrary: k)
  case 0
  then show ?case by simp
next
  case (Suc d)
  then have lt: "k < n" and len: "k < length subpath" by auto
  have step: "[k..<n] = k # [Suc k..<n]"
    using lt by (simp add: upt_conv_Cons)
  have d: "d = n - Suc k" using Suc.hyps(2) by simp
  have IH: "seed_loop subpath [Suc k..<n]
           ([0..<Suc k],
            map (\<lambda>i. (i, [([i], fst (contrib (subpath ! i)), score_of (subpath ! i),
                            fst (snd (contrib (subpath ! i))),
                            snd (snd (contrib (subpath ! i))))])) [0..<Suc k])
         = ([0..<n],
            map (\<lambda>i. (i, [([i], fst (contrib (subpath ! i)), score_of (subpath ! i),
                            fst (snd (contrib (subpath ! i))),
                            snd (snd (contrib (subpath ! i))))])) [0..<n])"
    using Suc.hyps(1)[OF d Suc.prems(1)] lt by simp
  show ?case
    unfolding step
    using len IH
    by (simp add: py_index_def defaultdict_append_fresh[OF map_of_upt_fresh]
          case_prod_beta)
qed

lemma bfs_while_empty_queue: "bfs_while fuel subpath seq_len [] current_paths = Some (Inr current_paths)"
  by (cases fuel) simp_all

lemma seed_value:
  "seed subpath =
     ([0..<length subpath], map (\<lambda>i. (i, [root_prefix subpath i])) [0..<length subpath])"
  using seed_loop_upt[of "length subpath" subpath 0]
  by (simp add: seed_def root_prefix_def case_prod_beta)

lemma extend_prefixes_done:
  "extend_prefixes fuel child child_score c aliased [] child_paths = Some child_paths"
  by (cases fuel) simp_all

lemma extend_step_seeded:
  "extend_step child (score_of sp) (contrib sp) False t todo [s] =
     (False, todo,
      if prefix_score t + score_of sp > prefix_score s then [extend_prefix t child sp]
      else if prefix_score t + score_of sp = prefix_score s then [s, extend_prefix t child sp]
      else [s])"
  by (simp add: extend_step_def extend_prefix_def prefix_score_def case_prod_beta Let_def)

lemma contrib_next: "contrib (e\<lparr>sub_next := x\<rparr>) = contrib e"
  by (simp add: contrib_def)

lemma score_of_next: "score_of (e\<lparr>sub_next := x\<rparr>) = score_of e"
  by (simp add: score_of_def)

lemma BFS_from_seed:
  "BFS fuel g \<lparr>aln_name = nm, aln_sequence = sq, aln_subpath = Some subpath, aln_start = st\<rparr> =
     (case bfs_while fuel subpath (length sq) [0..<length subpath]
             (map (\<lambda>i. (i, [root_prefix subpath i])) [0..<length subpath]) of
        None \<Rightarrow> None
      | Some (Inl e) \<Rightarrow> Some (Inl e)
      | Some (Inr final) \<Rightarrow> Some (final_paths_of g subpath final))"
  by (simp add: BFS_def seed_value)

lemma chain2_frontier:
  "bfs_while (Suc (Suc fuel)) (chain2 e0 e1) n [0, 1]
     [(0, [root_prefix (chain2 e0 e1) 0]), (1, [root_prefix (chain2 e0 e1) 1])] =
   Some (Inr
     (if prefix_len (root_prefix (chain2 e0 e1) 0) = int n then
        [(0, [root_prefix (chain2 e0 e1) 0]), (1, [root_prefix (chain2 e0 e1) 1])]
      else
        [(1, if 0 < score_of e0 then
               [extend_prefix (root_prefix (chain2 e0 e1) 0) 1 e1]
             else if score_of e0 = 0 then
               [root_prefix (chain2 e0 e1) 1,
                extend_prefix (root_prefix (chain2 e0 e1) 0) 1 e1]
             else [root_prefix (chain2 e0 e1) 1])]))"
proof -
  note [simp] = contrib_next score_of_next
  define p0 where "p0 = root_prefix (chain2 e0 e1) 0"
  define p1 where "p1 = root_prefix (chain2 e0 e1) (Suc 0)"
  define won where "won =
    (if 0 < score_of e0 then [extend_prefix p0 (Suc 0) e1]
     else if score_of e0 = 0 then [p1, extend_prefix p0 (Suc 0) e1]
     else [p1])"
  have sc: "prefix_score p0 = score_of e0" "prefix_score p1 = score_of e1"
    by (simp_all add: p0_def p1_def root_prefix_def chain2_def prefix_score_def
          case_prod_beta)
  have i0: "py_index (chain2 e0 e1) 0 = Inr (e0\<lparr>sub_next := Some [Suc 0]\<rparr>)"
    and i1: "py_index (chain2 e0 e1) (Suc 0) = Inr (e1\<lparr>sub_next := None\<rparr>)"
    by (simp_all add: py_index_def chain2_def)
  have step: "extend_step (Suc 0) (score_of e1) (contrib e1) False p0 [] [p1] =
                (False, [], won)"
    by (simp add: extend_step_seeded sc won_def)
  have ext: "extend_prefixes (Suc fuel) (Suc 0) (score_of e1) (contrib e1) False [p0] [p1] =
               Some won"
    by (simp add: step extend_prefixes_done)
  have children: "for_children (Suc fuel) (chain2 e0 e1) 0 [Suc 0]
                    ([Suc 0], [(0, [p0]), (Suc 0, [p1])])
                  = Some (Inr ([Suc 0], [(0, [p0]), (Suc 0, won)]))"
    by (simp add: i1 step extend_prefixes_done dict_get_def dict_has_def)
  have last: "bfs_while (Suc fuel) (chain2 e0 e1) n [Suc 0] [(Suc 0, won)] =
                Some (Inr [(Suc 0, won)])"
    by (simp add: i1 bfs_while_empty_queue)
  have "bfs_while (Suc (Suc fuel)) (chain2 e0 e1) n [0, Suc 0] [(0, [p0]), (Suc 0, [p1])] =
          Some (Inr (if prefix_len p0 = int n then [(0, [p0]), (Suc 0, [p1])]
                     else [(Suc 0, won)]))"
  proof (cases "prefix_len p0 = int n")
    case True
    then show ?thesis
      by (simp add: i0 i1 dict_get_def bfs_while_empty_queue)
  next
    case False
    have pop: "dict_pop [(0, [p0]), (Suc 0, won)] 0 = [(Suc 0, won)]"
      by (simp add: dict_pop_def)
    have "bfs_while (Suc (Suc fuel)) (chain2 e0 e1) n [0, Suc 0] [(0, [p0]), (Suc 0, [p1])] =
            bfs_while (Suc fuel) (chain2 e0 e1) n [Suc 0] (dict_pop [(0, [p0]), (Suc 0, won)] 0)"
      using False
      by (subst bfs_while.simps(2))
         (simp add: i0 dict_get_def children del: bfs_while.simps for_children.simps)
    then show ?thesis
      using False by (simp only: pop last if_False)
  qed
  then show ?thesis
    by (simp add: p0_def p1_def won_def)
qed

lemma BFS_empty_subpath:
  "aln_subpath aln = Some [] \<Longrightarrow> BFS fuel g aln = Some (Inr [])"
  by (simp add: BFS_def seed_def bfs_while_empty_queue final_paths_of_def)

lemma parse_records_append:
  "parse_records fuel g thr st (pre @ rest) =
     (case parse_records fuel g thr st pre of
        None \<Rightarrow> None
      | Some (Inl e) \<Rightarrow> Some (Inl e)
      | Some (Inr st') \<Rightarrow> parse_records fuel g thr st' rest)"
  by (induction pre arbitrary: st) (auto split: option.splits sum.splits)

lemma abund_norm_truncates:
  "abund_norm as bs = spec_abund_norm (map (\<lambda>a. real_of_int (py_int a)) as) bs"
  by (induction as bs rule: abund_norm.induct) (auto split: sum.splits)

lemma py_int_bounds:
  "\<bar>real_of_int (py_int a)\<bar> \<le> \<bar>a\<bar> \<and> \<bar>a\<bar> < \<bar>real_of_int (py_int a)\<bar> + 1
   \<and> 0 \<le> a * real_of_int (py_int a)"
proof (cases "a < 0")
  case True
  have c: "real_of_int \<lceil>a\<rceil> - 1 < a \<and> a \<le> real_of_int \<lceil>a\<rceil>"
    by linarith
  have "\<lceil>a\<rceil> \<le> 0"
    using True by (simp add: ceiling_le_zero)
  then have n: "real_of_int \<lceil>a\<rceil> \<le> 0"
    by simp
  have "0 \<le> a * real_of_int \<lceil>a\<rceil>"
    using True n by (simp add: mult_nonpos_nonpos)
  then show ?thesis
    using True c n by (simp add: py_int_def)
next
  case False
  have f: "real_of_int \<lfloor>a\<rfloor> \<le> a \<and> a < real_of_int \<lfloor>a\<rfloor> + 1"
    by linarith
  have "0 \<le> \<lfloor>a\<rfloor>"
    using False by simp
  then have p: "0 \<le> real_of_int \<lfloor>a\<rfloor>"
    by simp
  then show ?thesis
    using False f by (simp add: py_int_def)
qed

section \<open>Best-path resolver\<close>

text \<open>
  Claim C1 says that \<open>BFS\<close> returns only maximal-score Alignments.  The code keeps the
  best prefixes per end node and returns those of every sink: on the read \<open>ex_bubble\<close>,
  whose two sink-reaching paths score 10 and 15, it returns both Alignments, the one of
  score 10 first.
\<close>

theorem BFS_bubble_returns_lower_score:
  "BFS 10 ex_graph ex_bubble =
     Some (Inr [\<lparr>al_nodes = [(''1'', 1), (''2'', 1)],
                 al_variants = [(''2'', IntPos 2, ''C'')], al_len = 15, al_score = 10,
                 al_identity = 14 / 15\<rparr>,
                \<lparr>al_nodes = [(''1'', 1), (''3'', 1)], al_variants = [], al_len = 15,
                 al_score = 15, al_identity = 1\<rparr>])"
  by code_simp

text \<open>
  Claim C9: \<open>BFS\<close> seeds every subpath index from 0 to \<open>len(subpath) - 1\<close> as a
  root, whatever the \<open>start\<close> list of the record, and the seeded prefixes compete on
  score with the paths that come from other entries.  In order:
  the seeding loop puts every index, in order, in the queue and in the frontier, each
  with its own singleton prefix;
  \<open>BFS\<close> on a record is the \<open>while\<close> loop run from that queue and that frontier,
  followed by the collection of the Alignments, for any \<open>start\<close> list;
  changing the \<open>start\<close> list of a record does not change the result;
  when a prefix \<open>t\<close> is extended to a child whose frontier entry is still its seeded
  prefix, the extension replaces the seeded prefix if its score is strictly greater,
  joins it if the scores are equal, and is dropped if it is lower;
  and on every chain of two subpaths, where subpath 1 is not a root, \<open>BFS\<close> returns
  the Alignments of: both seeded prefixes if subpath 0 already covers the read;
  otherwise the path 0, 1 alone if the score of subpath 0 is positive, the prefix
  that begins at subpath 1 together with the path 0, 1 if it is zero, and the prefix
  that begins at subpath 1 alone if it is negative.
\<close>

theorem BFS_resolves_from_every_index:
  "seed subpath =
     ([0..<length subpath], map (\<lambda>i. (i, [root_prefix subpath i])) [0..<length subpath])
   \<and> BFS fuel g \<lparr>aln_name = nm, aln_sequence = sq, aln_subpath = Some subpath,
                   aln_start = st\<rparr> =
       (case bfs_while fuel subpath (length sq) [0..<length subpath]
               (map (\<lambda>i. (i, [root_prefix subpath i])) [0..<length subpath]) of
          None \<Rightarrow> None
        | Some (Inl e) \<Rightarrow> Some (Inl e)
        | Some (Inr final) \<Rightarrow> Some (final_paths_of g subpath final))
   \<and> BFS fuel g (aln\<lparr>aln_start := s\<rparr>) = BFS fuel g aln
   \<and> extend_step child (score_of (subpath ! child)) (contrib (subpath ! child)) False
         t todo [root_prefix subpath child] =
       (False, todo,
        if prefix_score t + score_of (subpath ! child) > score_of (subpath ! child) then
          [extend_prefix t child (subpath ! child)]
        else if prefix_score t + score_of (subpath ! child) = score_of (subpath ! child) then
          [root_prefix subpath child, extend_prefix t child (subpath ! child)]
        else [root_prefix subpath child])
   \<and> BFS (Suc (Suc fuel)) g \<lparr>aln_name = nm, aln_sequence = sq,
                               aln_subpath = Some (chain2 e0 e1), aln_start = st\<rparr> =
       Some (final_paths_of g (chain2 e0 e1)
         (if prefix_len (root_prefix (chain2 e0 e1) 0) = int (length sq) then
            [(0, [root_prefix (chain2 e0 e1) 0]), (1, [root_prefix (chain2 e0 e1) 1])]
          else
            [(1, if 0 < score_of e0 then
                   [extend_prefix (root_prefix (chain2 e0 e1) 0) 1 e1]
                 else if score_of e0 = 0 then
                   [root_prefix (chain2 e0 e1) 1,
                    extend_prefix (root_prefix (chain2 e0 e1) 0) 1 e1]
                 else [root_prefix (chain2 e0 e1) 1])]))"
proof -
  have a: "seed subpath =
     ([0..<length subpath], map (\<lambda>i. (i, [root_prefix subpath i])) [0..<length subpath])"
    by (rule seed_value)
  have b: "BFS fuel g \<lparr>aln_name = nm, aln_sequence = sq, aln_subpath = Some subpath,
                        aln_start = st\<rparr> =
       (case bfs_while fuel subpath (length sq) [0..<length subpath]
               (map (\<lambda>i. (i, [root_prefix subpath i])) [0..<length subpath]) of
          None \<Rightarrow> None
        | Some (Inl e) \<Rightarrow> Some (Inl e)
        | Some (Inr final) \<Rightarrow> Some (final_paths_of g subpath final))"
    by (rule BFS_from_seed)
  have c: "BFS fuel g (aln\<lparr>aln_start := s\<rparr>) = BFS fuel g aln"
    by (simp add: BFS_def split: option.splits prod.splits)
  have sc: "prefix_score (root_prefix subpath child) = score_of (subpath ! child)"
    by (simp add: root_prefix_def prefix_score_def case_prod_beta)
  have d: "extend_step child (score_of (subpath ! child)) (contrib (subpath ! child)) False
             t todo [root_prefix subpath child] =
       (False, todo,
        if prefix_score t + score_of (subpath ! child) > score_of (subpath ! child) then
          [extend_prefix t child (subpath ! child)]
        else if prefix_score t + score_of (subpath ! child) = score_of (subpath ! child) then
          [root_prefix subpath child, extend_prefix t child (subpath ! child)]
        else [root_prefix subpath child])"
    by (simp add: extend_step_seeded sc)
  have len2: "[0..<length (chain2 e0 e1)] = [0, 1]"
    by (simp add: chain2_def upt_conv_Cons)
  have e: "BFS (Suc (Suc fuel)) g \<lparr>aln_name = nm, aln_sequence = sq,
                               aln_subpath = Some (chain2 e0 e1), aln_start = st\<rparr> =
       Some (final_paths_of g (chain2 e0 e1)
         (if prefix_len (root_prefix (chain2 e0 e1) 0) = int (length sq) then
            [(0, [root_prefix (chain2 e0 e1) 0]), (1, [root_prefix (chain2 e0 e1) 1])]
          else
            [(1, if 0 < score_of e0 then
                   [extend_prefix (root_prefix (chain2 e0 e1) 0) 1 e1]
                 else if score_of e0 = 0 then
                   [root_prefix (chain2 e0 e1) 1,
                    extend_prefix (root_prefix (chain2 e0 e1) 0) 1 e1]
                 else [root_prefix (chain2 e0 e1) 1])]))"
    unfolding BFS_from_seed len2
    by (simp only: list.map chain2_frontier option.case sum.case)
  show ?thesis
    using a b c d e by (intro conjI)
qed

text \<open>
  The seeded prefixes compete with the paths from the declared roots: on \<open>ex_chain\<close>,
  whose only declared start is subpath 0, the prefix that begins at subpath 1 (score 5)
  beats the path 0, 1 (score 1), and the Alignment returned covers subpath 1 alone.
\<close>

lemma BFS_chain_mid_entry_wins:
  "BFS 5 ex_graph ex_chain =
     Some (Inr [\<lparr>al_nodes = [(''2'', 1)], al_variants = [], al_len = 5, al_score = 5,
                 al_identity = 1\<rparr>])"
  by code_simp

section \<open>Graph builder\<close>

text \<open>
  Claim C2 says that a link record adds the first node to the \<open>previous\<close> list of the
  second.  \<open>parse_graph\<close> calls \<open>edit_node\<close> with the edit type \<open>"add_prev"\<close>, which
  \<open>edit_node\<close> does not know: after the link from node 1 to node 2, node 1 has node 2
  in \<open>next\<close>, and the \<open>previous\<close> list of node 2 is empty.
\<close>

theorem parse_graph_link_leaves_previous_empty:
  "parse_graph ex_gfa_link =
     Inr \<lparr>graph_nodes =
            [(''1'', \<lparr>node_ID = ''1'', node_sequence = ''ACGT'', node_pathsCrossed = [],
                      node_previous = [], node_next = [''2'']\<rparr>),
             (''2'', \<lparr>node_ID = ''2'', node_sequence = ''GG'', node_pathsCrossed = [],
                      node_previous = [], node_next = []\<rparr>)],
          graph_paths = []\<rparr>"
  by code_simp

section \<open>Gene identity index\<close>

text \<open>
  Claim C4 says that a path matching no gene creates the gene under its forward-joined
  signature.  For the path P over the nodes 1, 2 of \<open>ex_gfa_path\<close>, the first gene of
  the index, \<open>generate_clusters_dict\<close> creates the key \<open>2-1\<close>.
\<close>

theorem generate_clusters_dict_keys_new_gene_by_reverse:
  "(case parse_graph ex_gfa_path of
      Inl e \<Rightarrow> Inl e
    | Inr g \<Rightarrow> generate_clusters_dict g [])
   = Inr ([], [(''2-1'', [''P''])],
          [(''P'', \<lparr>idt_genes = Some ''2-1'', idt_cluster = None\<rparr>)])"
  by code_simp

section \<open>Variant extractor\<close>

text \<open>
  Claim C5 says that a substitution in a step of reverse orientation emits each
  character reverse-complemented.  On \<open>ex_reverse_subst\<close> (node 1 has 10 bases, so the
  cursor starts at 7 and is at 5 after the match) the substitution AC is emitted as A at
  5 and C at 4: the cursor moves by one per character, the characters are unchanged.
\<close>

theorem get_variants_reverse_substitution_unchanged:
  "get_variants ex_graph ex_reverse_subst =
     Inr [(''1'', IntPos 5, ''A''), (''1'', IntPos 4, ''C'')]"
  by code_simp

section \<open>Streaming parser\<close>

text \<open>
  Claim C3 says that the variants of the last read group are recorded at the end of the
  stream.  The guard after the loop compares the name of the last line with
  \<open>previous_read\<close>, which the loop has just set to that name: for a file whose only
  line is \<open>ex_single ''r1''\<close> the read is retained with its variant, and \<open>variants\<close>
  stays empty; followed by a line of another read name, the same variant is recorded.
\<close>

theorem parse_vgmpmap_last_group_not_recorded:
  "parse_vgmpmap 5 ex_graph [ex_single ''r1''] (9 / 10) =
     Some (Inr ([(''r1'', [(''ACGTTCGTAC'', [ex_single_alignment])])], []))
   \<and> parse_vgmpmap 5 ex_graph [ex_single ''r1'', ex_single ''r2''] (9 / 10) =
     Some (Inr ([(''r1'', [(''ACGTTCGTAC'', [ex_single_alignment])]),
                 (''r2'', [(''ACGTTCGTAC'', [ex_single_alignment])])],
                [(''1'', [(IntPos 4, [(''T'', [''r1''])])])]))"
  by code_simp

text \<open>
  Claim C8 says that a slot is retained if and only if its best normalized score is at
  least the threshold.  The parser takes the score of the first Alignment \<open>BFS\<close>
  returns; for \<open>ex_bubble\<close> that is 10 (see claim C1), so with the threshold 0.9 the
  read is dropped, although its best Alignment scores 15 on 15 bases.
\<close>

theorem parse_vgmpmap_drops_read_with_best_score_above_threshold:
  "parse_vgmpmap 10 ex_graph [ex_bubble] (9 / 10) = Some (Inr ([], []))"
  by code_simp

text \<open>
  Claim C10: for a record whose \<open>subpath\<close> array is empty, \<open>BFS\<close> returns the empty
  list, and \<open>parse_vgmpmap\<close> raises \<open>IndexError\<close> at that record, whatever precedes it
  without error and whatever follows; a record without the key \<open>subpath\<close> leaves the
  state of the parser as it is.
\<close>

theorem parse_vgmpmap_empty_subpath_raises:
  assumes "aln_subpath r = Some []"
    and "parse_records fuel g thr
           \<lparr>ps_reads = [], ps_variants = [], ps_previous_read = []\<rparr> pre = Some (Inr st)"
    and "aln_subpath u = None"
  shows "BFS fuel g r = Some (Inr [])
       \<and> parse_vgmpmap fuel g (pre @ r # post) thr = Some (Inl IndexError)
       \<and> parse_record fuel g thr st' u = Some (Inr st')"
proof -
  have b: "BFS fuel g r = Some (Inr [])"
    using assms(1) by (rule BFS_empty_subpath)
  have "parse_record fuel g thr st r = Some (Inl IndexError)"
    using assms(1) b by (simp add: parse_record_def)
  then have "parse_records fuel g thr
           \<lparr>ps_reads = [], ps_variants = [], ps_previous_read = []\<rparr> (pre @ r # post)
         = Some (Inl IndexError)"
    using assms(2) by (simp add: parse_records_append)
  then have "parse_vgmpmap fuel g (pre @ r # post) thr = Some (Inl IndexError)"
    by (simp add: parse_vgmpmap_def)
  moreover have "parse_record fuel g thr st' u = Some (Inr st')"
    using assms(3) by (simp add: parse_record_def)
  ultimately show ?thesis using b by simp
qed

lemma parse_records_ex_single:
  "parse_records 5 ex_graph (9 / 10)
     \<lparr>ps_reads = [], ps_variants = [], ps_previous_read = []\<rparr> [ex_single ''r1'']
   = Some (Inr \<lparr>ps_reads = [(''r1'', [(''ACGTTCGTAC'', [ex_single_alignment])])],
                ps_variants = [], ps_previous_read = ''r1''\<rparr>)"
  by code_simp

theorem parse_vgmpmap_empty_subpath_raises_witness:
  "BFS 5 ex_graph ex_empty_subpath = Some (Inr [])
   \<and> parse_vgmpmap 5 ex_graph ([ex_single ''r1''] @ ex_empty_subpath # [ex_single ''r5''])
       (9 / 10) = Some (Inl IndexError)
   \<and> parse_record 5 ex_graph (9 / 10)
       \<lparr>ps_reads = [], ps_variants = [], ps_previous_read = ''r1''\<rparr> ex_unmapped
     = Some (Inr \<lparr>ps_reads = [], ps_variants = [], ps_previous_read = ''r1''\<rparr>)"
proof -
  have 1: "aln_subpath ex_empty_subpath = Some []"
    by (simp add: ex_empty_subpath_def)
  have 3: "aln_subpath ex_unmapped = None"
    by (simp add: ex_unmapped_def)
  show ?thesis
    by (rule parse_vgmpmap_empty_subpath_raises[OF 1 parse_records_ex_single 3])
qed

section \<open>Abundance aggregator\<close>

text \<open>
  Claim C6 says that a unique read adds its length divided by the length of its own
  gene, whatever was processed before.  \<open>path_seq\<close> is assigned only when a gene is
  initialised: after \<open>ex_read1\<close> (gene 1, 4 bases) and \<open>ex_read2\<close> (gene 2, 8 bases),
  \<open>ex_read3\<close> of 4 bases adds 4/8 to gene 1, whose unique count ends at 3/2; without
  \<open>ex_read2\<close> the same read adds 4/4 and the count ends at 2.
\<close>

theorem get_abundance_unique_count_depends_on_previous_gene:
  "map_sum id d_abund (get_abundance_reads ex_two_genes ex_idt [ex_read1, ex_read2, ex_read3])
     = Inr [(''1'', \<lparr>uniq_count = 3 / 2, nodes_abund = [(''1'', 2)], nb_subst = [(0, 2)]\<rparr>),
            (''2'', \<lparr>uniq_count = 1, nodes_abund = [(''2'', 1)], nb_subst = [(0, 1)]\<rparr>)]
   \<and> map_sum id d_abund (get_abundance_reads ex_two_genes ex_idt [ex_read1, ex_read3])
     = Inr [(''1'', \<lparr>uniq_count = 2, nodes_abund = [(''1'', 2)], nb_subst = [(0, 2)]\<rparr>)]"
  by code_simp

text \<open>
  The graph and the identity table of this example are what the graph builder and the
  gene identity index produce from the GFA lines.
\<close>

lemma ex_two_genes_built:
  "parse_graph [[''S'', ''1'', ''ACGT''], [''S'', ''2'', ''ACGTACGT''],
                [''P'', ''pA'', ''1+'', ''4M''], [''P'', ''pB'', ''2+'', ''8M'']]
     = Inr ex_two_genes
   \<and> generate_clusters_dict ex_two_genes [] =
       Inr ([], [(''1'', [''pA'']), (''2'', [''pB''])], ex_idt)"
  by code_simp

text \<open>
  Claim C7 says that each abundance sample is divided by its copy count without
  truncation.  The code divides \<open>int(a)\<close> by \<open>int(b)\<close>: the sample 1.5 with copy count 1
  gives the abundance 1, where the exact quotient gives 1.5.
\<close>

theorem finalize_record_truncates_sample:
  "finalize_record ex_stats = Inr \<lparr>sf_abund = Some 1, sf_std = Some 0, sf_nb_copy = [1]\<rparr>
   \<and> spec_finalize_record ex_stats =
       Inr \<lparr>sf_abund = Some (3 / 2), sf_std = Some 0, sf_nb_copy = [1]\<rparr>"
  by (simp add: finalize_record_def spec_finalize_record_def ex_stats_def np_mean_def
        np_std_def py_int_def)

text \<open>
  Claim C7, amended: each abundance sample is first truncated towards zero to an
  integer, the truncated sample is divided by its copy count as exact division, and the
  abundance and the std of the record are the mean and the population standard
  deviation of these quotients; that is, the code does what the specification says on
  the truncated samples.
\<close>

theorem finalize_record_on_truncated_samples:
  "finalize_record r =
     spec_finalize_record (r\<lparr>ss_abund := map (\<lambda>a. real_of_int (py_int a)) (ss_abund r)\<rparr>)
   \<and> \<bar>real_of_int (py_int a)\<bar> \<le> \<bar>a\<bar> \<and> \<bar>a\<bar> < \<bar>real_of_int (py_int a)\<bar> + 1
   \<and> 0 \<le> a * real_of_int (py_int a)"
proof -
  have "finalize_record r =
     spec_finalize_record (r\<lparr>ss_abund := map (\<lambda>a. real_of_int (py_int a)) (ss_abund r)\<rparr>)"
    by (simp add: finalize_record_def spec_finalize_record_def abund_norm_truncates
          split: sum.splits)
  moreover have "\<bar>real_of_int (py_int a)\<bar> \<le> \<bar>a\<bar>"
    using py_int_bounds[of a] by simp
  moreover have "\<bar>a\<bar> < \<bar>real_of_int (py_int a)\<bar> + 1"
    using py_int_bounds[of a] by simp
  moreover have "0 \<le> a * real_of_int (py_int a)"
    using py_int_bounds[of a] by simp
  ultimately show ?thesis by simp
qed

end
